theory Spec2Isabelle
  imports Main "HOL-Library.AList" "HOL-Library.Sublist" "HOL-Library.Word"
begin

section \<open>Values, errors and the outside world\<close>

text \<open>
  The identity document, the key material and the options travel through \<^verbatim>\<open>muport.js\<close>
  as plain JavaScript data. A property that is present with the value \<^verbatim>\<open>undefined\<close> and a
  property that is not there at all are different objects (and different published JSON
  once a wrapper object is involved), so objects are association lists whose entries can
  hold \<open>Undefined\<close>. Key order is insertion order, as in JavaScript.
\<close>

datatype jsval =
    Undefined
  | Null
  | Bool bool
  | Num int
  | Str string
  | Arr "jsval list"
  | Obj "(string \<times> jsval) list"

type_synonym obj = "(string \<times> jsval) list"

type_synonym buffer = "8 word list"

text \<open>The truthiness test of \<^verbatim>\<open>if (x)\<close>, \<^verbatim>\<open>!x\<close> and \<^verbatim>\<open>x || y\<close>.\<close>

fun truthy :: "jsval \<Rightarrow> bool" where
  "truthy Undefined = False"
| "truthy Null = False"
| "truthy (Bool b) = b"
| "truthy (Num n) = (n \<noteq> 0)"
| "truthy (Str s) = (s \<noteq> [])"
| "truthy (Arr xs) = True"
| "truthy (Obj kvs) = True"

text \<open>
  Three kinds of failure are kept apart: an \<^verbatim>\<open>Error\<close> that \<^verbatim>\<open>muport.js\<close> throws itself
  (with its message), the \<^verbatim>\<open>TypeError\<close> the runtime raises when a property of
  \<^verbatim>\<open>undefined\<close> or \<^verbatim>\<open>null\<close> is read or a missing method is called, and a rejection that
  comes out of a collaborator (resolver, content store, key ring, ledger client, base58
  codec), carried with the reason the collaborator gave.
\<close>

datatype error = Error string | TypeError | Rejected string

text \<open>\<^verbatim>\<open>o.k\<close> on an object of this module: \<^verbatim>\<open>undefined\<close> when the key is missing.\<close>

definition get :: "obj \<Rightarrow> string \<Rightarrow> jsval" where
  "get kvs k = (case map_of kvs k of None \<Rightarrow> Undefined | Some v \<Rightarrow> v)"

text \<open>
  \<^verbatim>\<open>v.k\<close> on an arbitrary value, for the property names this module reads
  (\<^verbatim>\<open>symEncDids\<close>, \<^verbatim>\<open>ciphertext\<close>, \<^verbatim>\<open>nonce\<close>): reading from \<^verbatim>\<open>undefined\<close> or
  \<^verbatim>\<open>null\<close> throws, a primitive or an array has no such property.
\<close>

fun read_prop :: "jsval \<Rightarrow> string \<Rightarrow> error + jsval" where
  "read_prop Undefined k = Inl TypeError"
| "read_prop Null k = Inl TypeError"
| "read_prop (Obj kvs) k = Inr (get kvs k)"
| "read_prop v k = Inr Undefined"

text \<open>\<^verbatim>\<open>xs[i]\<close>: \<^verbatim>\<open>undefined\<close> (here \<open>None\<close>) out of range.\<close>

definition index :: "'a list \<Rightarrow> nat \<Rightarrow> 'a option" where
  "index xs i = (if i < length xs then Some (xs ! i) else None)"

text \<open>\<^verbatim>\<open>s.split(c)\<close> for a one-character separator; the result is never empty.\<close>

fun split :: "char \<Rightarrow> string \<Rightarrow> string list" where
  "split c [] = [[]]"
| "split c (x # xs) =
     (if x = c then [] # split c xs
      else (case split c xs of [] \<Rightarrow> [[x]] | seg # segs \<Rightarrow> (x # seg) # segs))"

text \<open>A string-valued option is truthy when it is given and not the empty string.\<close>

definition present :: "string option \<Rightarrow> bool" where
  "present s = (case s of None \<Rightarrow> False | Some x \<Rightarrow> x \<noteq> [])"

text \<open>
  The options object \<^verbatim>\<open>opts\<close> of the constructor, \<^verbatim>\<open>newIdentity\<close> and
  \<^verbatim>\<open>recoverIdentity\<close>: every entry may be missing (\<open>None\<close>). The DID and the content
  address are strings, the document is an object, the key ring state and the two
  transport settings are any value. \<^verbatim>\<open>serializeState\<close> produces the same shape.
\<close>

record opts =
  opts_did :: "string option"
  opts_document :: "obj option"
  opts_documentHash :: "string option"
  opts_keyring :: "jsval option"
  opts_ipfsConf :: "jsval option"
  opts_rpcProviderUrl :: "jsval option"

text \<open>
  \<^verbatim>\<open>{ ...a, ...b }\<close>: an entry of \<open>b\<close> replaces the entry of \<open>a\<close> with the same key.
\<close>

definition spread :: "opts \<Rightarrow> opts \<Rightarrow> opts" where
  "spread a b =
     \<lparr> opts_did = (case opts_did b of None \<Rightarrow> opts_did a | Some v \<Rightarrow> Some v),
       opts_document = (case opts_document b of None \<Rightarrow> opts_document a | Some v \<Rightarrow> Some v),
       opts_documentHash =
         (case opts_documentHash b of None \<Rightarrow> opts_documentHash a | Some v \<Rightarrow> Some v),
       opts_keyring = (case opts_keyring b of None \<Rightarrow> opts_keyring a | Some v \<Rightarrow> Some v),
       opts_ipfsConf = (case opts_ipfsConf b of None \<Rightarrow> opts_ipfsConf a | Some v \<Rightarrow> Some v),
       opts_rpcProviderUrl =
         (case opts_rpcProviderUrl b of None \<Rightarrow> opts_rpcProviderUrl a | Some v \<Rightarrow> Some v) \<rparr>"

text \<open>
  What lies outside the module and changes while it runs: the module variable
  \<^verbatim>\<open>ipfs\<close> (known by the configuration its handle was built from, \<open>None\<close> before the
  first \<^verbatim>\<open>initIpfs\<close>), the settings last given to \<^verbatim>\<open>registerMuportResolver\<close>, the
  documents handed to \<^verbatim>\<open>ipfs.addJSONAsync\<close> and the raw transactions handed to
  \<^verbatim>\<open>sendRawTx\<close>, both in call order.
\<close>

record world =
  ipfs :: "jsval option"
  resolver :: "(jsval option \<times> jsval option) option"
  published :: "obj list"
  sent :: "jsval list"

text \<open>A DID document as \<^verbatim>\<open>did-resolver\<close> returns it, with the parts the module reads.\<close>

record publicKeyEntry =
  key_id :: string
  publicKeyHex :: jsval
  publicKeyBase64 :: jsval

record didDoc =
  publicKey :: "publicKeyEntry list"
  muportData :: "obj option"

text \<open>The object of the three public keys, as \<^verbatim>\<open>resolveIdentityDocument\<close> builds it.\<close>

record publicKeys =
  signingKey :: jsval
  managementKey :: jsval
  asymEncryptionKey :: jsval

text \<open>
  The collaborators. \<^verbatim>\<open>./keyring\<close> and \<^verbatim>\<open>./ethereum-utils\<close> are required by the module
  but are not part of the sources at hand; \<^verbatim>\<open>did-resolver\<close>, \<^verbatim>\<open>ipfs-mini\<close> and
  \<^verbatim>\<open>bs58\<close> are libraries. All of them are parameters: \<open>'k\<close> is the state of a key ring,
  an \<^verbatim>\<open>EthereumUtils\<close> object is known by the provider URL it was built with. The calls
  whose contract names a failure (resolution, publication, key generation and restore,
  share creation, decryption, base58 decoding, the ledger requests) return the reason of
  the rejection on the left.
\<close>

record 'k env =
  resolve :: "(jsval option \<times> jsval option) option \<Rightarrow> string \<Rightarrow> string + didDoc"
  addJSONAsync :: "jsval \<Rightarrow> obj \<Rightarrow> string + string"
  bs58_encode :: "buffer \<Rightarrow> string"
  bs58_decode :: "string \<Rightarrow> string + buffer"
  Keyring_new :: "jsval option \<Rightarrow> string + 'k"
  recoverKeyring :: "jsval \<Rightarrow> string + 'k"
  serialize :: "'k \<Rightarrow> jsval"
  getPublicKeys :: "'k \<Rightarrow> publicKeys"
  createShares :: "'k \<Rightarrow> string list \<Rightarrow> jsval list \<Rightarrow> string + jsval"
  symEncrypt :: "'k \<Rightarrow> buffer \<Rightarrow> jsval"
  symDecrypt :: "'k \<Rightarrow> jsval \<Rightarrow> jsval \<Rightarrow> bool \<Rightarrow> string + buffer"
  getManagementAddress :: "'k \<Rightarrow> jsval"
  signManagementTx :: "'k \<Rightarrow> jsval \<Rightarrow> jsval"
  createPublishTxParams :: "jsval option \<Rightarrow> string \<Rightarrow> jsval \<Rightarrow> string + jsval"
  calculateTxCost :: "jsval option \<Rightarrow> jsval \<Rightarrow> jsval"
  sendRawTx :: "jsval option \<Rightarrow> jsval \<Rightarrow> string + jsval"

section \<open>The module\<close>

text \<open>
  The functions of \<^verbatim>\<open>muport.js\<close> that create, restore, serialize and update an identity
  and read its delegate list, in the order of the source where dependencies allow.
  \<^verbatim>\<open>helpRecover\<close>, \<^verbatim>\<open>signJWT\<close> and \<^verbatim>\<open>verifyJWT\<close> only pass their arguments on to the
  key ring and the JWT library and change nothing; no property below is about them.
  A function that has effects takes the world and returns the world it leaves.
\<close>

definition IPFS_CONF :: jsval where
  "IPFS_CONF =
     Obj [(''host'', Str ''ipfs.infura.io''), (''port'', Num 5001), (''protocol'', Str ''https'')]"

definition initIpfs :: "jsval option \<Rightarrow> world \<Rightarrow> world" where
  "initIpfs ipfsConf w =
     w\<lparr>ipfs := Some (case ipfsConf of
                       None \<Rightarrow> IPFS_CONF
                     | Some c \<Rightarrow> if truthy c then c else IPFS_CONF)\<rparr>"

definition registerMuportResolver :: "jsval option \<Rightarrow> jsval option \<Rightarrow> world \<Rightarrow> world" where
  "registerMuportResolver ipfsConf rpcProviderUrl w = w\<lparr>resolver := Some (ipfsConf, rpcProviderUrl)\<rparr>"

text \<open>
  \<^verbatim>\<open>{ version: 1, ...publicKeys }\<close> puts the three keys after the version; each optional
  part is then assigned only if it is truthy.
\<close>

definition createMuportDocument :: "publicKeys \<Rightarrow> jsval \<Rightarrow> jsval \<Rightarrow> jsval \<Rightarrow> obj" where
  "createMuportDocument publicKeys recoveryNetwork publicProfile symEncryptedData =
     (let doc = [(''version'', Num 1),
                 (''signingKey'', signingKey publicKeys),
                 (''managementKey'', managementKey publicKeys),
                 (''asymEncryptionKey'', asymEncryptionKey publicKeys)];
          doc = (if truthy recoveryNetwork
                 then AList.update ''recoveryNetwork'' recoveryNetwork doc else doc);
          doc = (if truthy publicProfile
                 then AList.update ''publicProfile'' publicProfile doc else doc);
          doc = (if truthy symEncryptedData
                 then AList.update ''symEncryptedData'' symEncryptedData doc else doc)
      in doc)"

definition bufferToDid :: "'k env \<Rightarrow> buffer \<Rightarrow> string" where
  "bufferToDid env didBuffer = ''did:muport:'' @ bs58_encode env didBuffer"

text \<open>
  \<^verbatim>\<open>bs58.decode\<close> throws on a value that is not a string, which is what it is given when
  the DID has fewer than three segments.
\<close>

definition didToBuffer :: "'k env \<Rightarrow> string \<Rightarrow> error + buffer" where
  "didToBuffer env didUri =
     (case index (split CHR '':'' didUri) 2 of
        None \<Rightarrow> Inl TypeError
      | Some hash \<Rightarrow>
          (case bs58_decode env hash of Inl r \<Rightarrow> Inl (Rejected r) | Inr b \<Rightarrow> Inr b))"

text \<open>The object a \<^verbatim>\<open>MuPort\<close> instance is: the fields the constructor sets.\<close>

record 'k MuPort =
  did :: string
  document :: obj
  documentHash :: "string option"
  keyring :: 'k
  ethUtils :: "jsval option"

text \<open>
  The constructor. \<^verbatim>\<open>!opts.did || !opts.document || !opts.keyring\<close> holds when an entry
  is not there, when the DID is the empty string and when the key ring state is falsy.
  After the test come, in this order, \<^verbatim>\<open>initIpfs\<close>, the assignments,
  \<^verbatim>\<open>new Keyring(opts.keyring)\<close> (which may throw), \<^verbatim>\<open>new EthereumUtils\<close> and
  \<^verbatim>\<open>registerMuportResolver\<close>.
\<close>

definition constructor :: "'k env \<Rightarrow> opts \<Rightarrow> world \<Rightarrow> world \<times> (error + 'k MuPort)" where
  "constructor env opts w =
     (case (opts_did opts, opts_document opts, opts_keyring opts) of
        (Some d, Some doc, Some kr) \<Rightarrow>
          if d = [] \<or> \<not> truthy kr
          then (w, Inl (Error ''Data missing for restoring identity''))
          else
            (let w1 = initIpfs (opts_ipfsConf opts) w;
                 hash = (if present (opts_documentHash opts) then opts_documentHash opts
                         else index (split CHR '':'' d) 2)
             in case Keyring_new env (Some kr) of
                  Inl r \<Rightarrow> (w1, Inl (Rejected r))
                | Inr k \<Rightarrow>
                    (registerMuportResolver (opts_ipfsConf opts) (opts_rpcProviderUrl opts) w1,
                     Inr \<lparr> did = d, document = doc, documentHash = hash, keyring = k,
                           ethUtils = opts_rpcProviderUrl opts \<rparr>))
      | _ \<Rightarrow> (w, Inl (Error ''Data missing for restoring identity'')))"

definition getDid :: "'k MuPort \<Rightarrow> string" where
  "getDid this = did this"

definition getDidDocument :: "'k MuPort \<Rightarrow> obj" where
  "getDidDocument this = document this"

text \<open>
  \<^verbatim>\<open>resolveIdentityDocument(did, opts)\<close>; \<open>opts = None\<close> is the call without the second
  argument. \<^verbatim>\<open>find\<close> returns \<^verbatim>\<open>undefined\<close> when no key entry carries the fragment, and
  reading \<^verbatim>\<open>publicKeyHex\<close> from it throws; so does reading from a missing
  \<^verbatim>\<open>muportData\<close>. The object literal is evaluated before \<^verbatim>\<open>muportData\<close> is read.
\<close>

definition resolveIdentityDocument ::
  "'k env \<Rightarrow> string \<Rightarrow> opts option \<Rightarrow> world \<Rightarrow> world \<times> (error + obj)" where
  "resolveIdentityDocument env d opts w =
     (let w1 = (case opts of
                  None \<Rightarrow> w
                | Some os \<Rightarrow> registerMuportResolver (opts_ipfsConf os) (opts_rpcProviderUrl os) w)
      in case resolve env (resolver w1) d of
           Inl r \<Rightarrow> (w1, Inl (Rejected r))
         | Inr didDoc \<Rightarrow>
             (case (find (\<lambda>key. sublist ''#signingKey'' (key_id key)) (publicKey didDoc),
                    find (\<lambda>key. sublist ''#managementKey'' (key_id key)) (publicKey didDoc),
                    find (\<lambda>key. sublist ''#encryptionKey'' (key_id key)) (publicKey didDoc),
                    muportData didDoc) of
                (Some sk, Some mk, Some ek, Some md) \<Rightarrow>
                  (w1, Inr (createMuportDocument
                              \<lparr> signingKey = publicKeyHex sk,
                                managementKey = publicKeyHex mk,
                                asymEncryptionKey = publicKeyBase64 ek \<rparr>
                              (get md ''recoveryNetwork'')
                              (Obj [(''name'', get md ''nym'')])
                              (get md ''symEncryptedData'')))
              | _ \<Rightarrow> (w1, Inl TypeError)))"

text \<open>
  \<^verbatim>\<open>Promise.all(delegateDids.map(async did => (await
  MuPort.resolveIdentityDocument(did, opts)).asymEncryptionKey))\<close>: every resolution is
  started, in list order; the result is the list of keys, or a rejection when one of
  them rejects (of several, the model reports the first in list order).
\<close>

fun didsPublicKeys ::
  "'k env \<Rightarrow> opts option \<Rightarrow> string list \<Rightarrow> world \<Rightarrow> world \<times> (error + jsval list)" where
  "didsPublicKeys env opts [] w = (w, Inr [])"
| "didsPublicKeys env opts (d # ds) w =
     (case resolveIdentityDocument env d opts w of
        (w1, r) \<Rightarrow>
          (case didsPublicKeys env opts ds w1 of
             (w2, rs) \<Rightarrow>
               (w2, case r of
                      Inl e \<Rightarrow> Inl e
                    | Inr doc \<Rightarrow>
                        (case rs of
                           Inl e \<Rightarrow> Inl e
                         | Inr ks \<Rightarrow> Inr (get doc ''asymEncryptionKey'' # ks)))))"

text \<open>
  The body of the \<^verbatim>\<open>map\<close> in \<^verbatim>\<open>getRecoveryDelegateDids\<close>, over the entries of
  \<^verbatim>\<open>symEncDids\<close>.
\<close>

fun decryptDids :: "'k env \<Rightarrow> 'k \<Rightarrow> jsval list \<Rightarrow> error + string list" where
  "decryptDids env k [] = Inr []"
| "decryptDids env k (encDid # rest) =
     (case read_prop encDid ''ciphertext'' of
        Inl e \<Rightarrow> Inl e
      | Inr ciphertext \<Rightarrow>
          (case read_prop encDid ''nonce'' of
             Inl e \<Rightarrow> Inl e
           | Inr nonce \<Rightarrow>
               (case symDecrypt env k ciphertext nonce True of
                  Inl r \<Rightarrow> Inl (Rejected r)
                | Inr buf \<Rightarrow>
                    (case decryptDids env k rest of
                       Inl e \<Rightarrow> Inl e
                     | Inr dids \<Rightarrow> Inr (bufferToDid env buf # dids)))))"

text \<open>
  \<^verbatim>\<open>!= undefined\<close> is the loose comparison: \<^verbatim>\<open>null\<close> is skipped as well. Any other value
  that is not an array has no \<^verbatim>\<open>map\<close> method.
\<close>

definition getRecoveryDelegateDids :: "'k env \<Rightarrow> 'k MuPort \<Rightarrow> error + string list" where
  "getRecoveryDelegateDids env this =
     (case read_prop (get (document this) ''symEncryptedData'') ''symEncDids'' of
        Inl e \<Rightarrow> Inl e
      | Inr Undefined \<Rightarrow> Inr []
      | Inr Null \<Rightarrow> Inr []
      | Inr (Arr symEncDids) \<Rightarrow> decryptDids env (keyring this) symEncDids
      | Inr _ \<Rightarrow> Inl TypeError)"

text \<open>
  What \<^verbatim>\<open>updateDelegates\<close> returns. \<^verbatim>\<open>finishUpdate\<close> is a closure over the signed
  transaction: a function of the world it is called in.
\<close>

record updateResult =
  address :: jsval
  costInEther :: jsval
  finishUpdate :: "world \<Rightarrow> world \<times> (error + unit)"

text \<open>
  \<^verbatim>\<open>updateDelegates\<close> changes the instance in place, so the model returns the instance
  as it is left, also when the call throws.
\<close>

definition updateDelegates ::
  "'k env \<Rightarrow> 'k MuPort \<Rightarrow> string list \<Rightarrow> world \<Rightarrow> world \<times> 'k MuPort \<times> (error + updateResult)"
  where
  "updateDelegates env this delegateDids w =
     (if length delegateDids \<noteq> 3
      then (w, this, Inl (Error ''Must provide exactly 3 DIDs''))
      else
        case didsPublicKeys env None delegateDids w of
          (w1, Inl e) \<Rightarrow> (w1, this, Inl e)
        | (w1, Inr keys) \<Rightarrow>
            (case createShares env (keyring this) delegateDids keys of
               Inl r \<Rightarrow> (w1, this, Inl (Rejected r))
             | Inr recoveryNetwork \<Rightarrow>
                 (let this1 = this\<lparr>document :=
                                AList.update ''recoveryNetwork'' recoveryNetwork (document this)\<rparr>
                  in case ipfs w1 of
                       None \<Rightarrow> (w1, this1, Inl TypeError)
                     | Some conf \<Rightarrow>
                         (let w2 = w1\<lparr>published := published w1 @ [document this1]\<rparr>
                          in case addJSONAsync env conf (document this1) of
                               Inl r \<Rightarrow> (w2, this1, Inl (Rejected r))
                             | Inr hash \<Rightarrow>
                                 (let this2 = this1\<lparr>documentHash := Some hash\<rparr>;
                                      addr = getManagementAddress env (keyring this2)
                                  in case createPublishTxParams env (ethUtils this2) hash addr of
                                       Inl r \<Rightarrow> (w2, this2, Inl (Rejected r))
                                     | Inr txParams \<Rightarrow>
                                         (let cost = calculateTxCost env (ethUtils this2) txParams;
                                              signedTx = signManagementTx env (keyring this2) txParams
                                          in (w2, this2,
                                              Inr \<lparr> address = addr,
                                                    costInEther = cost,
                                                    finishUpdate =
                                                      (\<lambda>w'. (w'\<lparr>sent := sent w' @ [signedTx]\<rparr>,
                                                             case sendRawTx env (ethUtils this2) signedTx of
                                                               Inl r \<Rightarrow> Inl (Rejected r)
                                                             | Inr receipt \<Rightarrow> Inr ())) \<rparr>)))))))"

definition serializeState :: "'k env \<Rightarrow> 'k MuPort \<Rightarrow> opts" where
  "serializeState env this =
     \<lparr> opts_did = Some (did this),
       opts_document = Some (document this),
       opts_documentHash = documentHash this,
       opts_keyring = Some (serialize env (keyring this)),
       opts_ipfsConf = None,
       opts_rpcProviderUrl = None \<rparr>"

text \<open>
  The body of the \<^verbatim>\<open>map\<close> in \<^verbatim>\<open>newIdentity\<close>:
  \<^verbatim>\<open>delegateDids.map((did) => keyring.symEncrypt(didToBuffer(did)))\<close>.
\<close>

fun symEncryptDids :: "'k env \<Rightarrow> 'k \<Rightarrow> string list \<Rightarrow> error + jsval list" where
  "symEncryptDids env k [] = Inr []"
| "symEncryptDids env k (d # ds) =
     (case didToBuffer env d of
        Inl e \<Rightarrow> Inl e
      | Inr buf \<Rightarrow>
          (case symEncryptDids env k ds of
             Inl e \<Rightarrow> Inl e
           | Inr encs \<Rightarrow> Inr (symEncrypt env k buf # encs)))"

text \<open>
  The block of \<^verbatim>\<open>newIdentity\<close> under \<^verbatim>\<open>if (delegateDids)\<close>, with the values it leaves
  in \<^verbatim>\<open>recoveryNetwork\<close> and \<^verbatim>\<open>symEncryptedDelegateDids\<close>. \<open>delegateDids = None\<close> is
  the call with \<^verbatim>\<open>undefined\<close> or \<^verbatim>\<open>null\<close> (an array, also the empty one, is truthy);
  the two variables then stay \<^verbatim>\<open>undefined\<close>.
\<close>

definition delegateData ::
  "'k env \<Rightarrow> 'k \<Rightarrow> string list option \<Rightarrow> opts \<Rightarrow> world \<Rightarrow> world \<times> (error + jsval \<times> jsval)"
  where
  "delegateData env k delegateDids opts w =
     (case delegateDids of
        None \<Rightarrow> (w, Inr (Undefined, Undefined))
      | Some dids \<Rightarrow>
          (case didsPublicKeys env (Some opts) dids w of
             (w1, Inl e) \<Rightarrow> (w1, Inl e)
           | (w1, Inr keys) \<Rightarrow>
               (case createShares env k dids keys of
                  Inl r \<Rightarrow> (w1, Inl (Rejected r))
                | Inr shares \<Rightarrow>
                    (case symEncryptDids env k dids of
                       Inl e \<Rightarrow> (w1, Inl e)
                     | Inr encs \<Rightarrow> (w1, Inr (shares, Arr encs))))))"

text \<open>
  \<^verbatim>\<open>newIdentity(name, delegateDids, opts)\<close>. The constructor is given the four computed
  entries with \<^verbatim>\<open>...opts\<close> spread after them.
\<close>

definition newIdentity ::
  "'k env \<Rightarrow> jsval \<Rightarrow> string list option \<Rightarrow> opts \<Rightarrow> world \<Rightarrow> world \<times> (error + 'k MuPort)"
  where
  "newIdentity env name delegateDids opts w =
     (let w0 = initIpfs (opts_ipfsConf opts) w;
          publicProfile = Obj [(''name'', name)]
      in case Keyring_new env None of
           Inl r \<Rightarrow> (w0, Inl (Rejected r))
         | Inr k \<Rightarrow>
             (case delegateData env k delegateDids opts w0 of
                (w1, Inl e) \<Rightarrow> (w1, Inl e)
              | (w1, Inr (recoveryNetwork, symEncryptedDelegateDids)) \<Rightarrow>
                  (let doc = createMuportDocument (getPublicKeys env k) recoveryNetwork
                               publicProfile (Obj [(''symEncDids'', symEncryptedDelegateDids)])
                   in case ipfs w1 of
                        None \<Rightarrow> (w1, Inl TypeError)
                      | Some conf \<Rightarrow>
                          (let w2 = w1\<lparr>published := published w1 @ [doc]\<rparr>
                           in case addJSONAsync env conf doc of
                                Inl r \<Rightarrow> (w2, Inl (Rejected r))
                              | Inr docHash \<Rightarrow>
                                  constructor env
                                    (spread
                                       \<lparr> opts_did = Some (''did:muport:'' @ docHash),
                                         opts_document = Some doc,
                                         opts_documentHash = Some docHash,
                                         opts_keyring = Some (serialize env k),
                                         opts_ipfsConf = None,
                                         opts_rpcProviderUrl = None \<rparr>
                                       opts)
                                    w2))))"

text \<open>
  \<^verbatim>\<open>recoverIdentity(did, shares, opts)\<close>: the object literal names no
  \<^verbatim>\<open>documentHash\<close>, so the constructor takes it from the DID unless \<open>opts\<close> brings one.
\<close>

definition recoverIdentity ::
  "'k env \<Rightarrow> string \<Rightarrow> jsval \<Rightarrow> opts \<Rightarrow> world \<Rightarrow> world \<times> (error + 'k MuPort)" where
  "recoverIdentity env d shares opts w =
     (let w0 = initIpfs (opts_ipfsConf opts) w
      in case resolveIdentityDocument env d (Some opts) w0 of
           (w1, Inl e) \<Rightarrow> (w1, Inl e)
         | (w1, Inr doc) \<Rightarrow>
             (case recoverKeyring env shares of
                Inl r \<Rightarrow> (w1, Inl (Rejected r))
              | Inr k \<Rightarrow>
                  constructor env
                    (spread
                       \<lparr> opts_did = Some d,
                         opts_document = Some doc,
                         opts_documentHash = None,
                         opts_keyring = Some (serialize env k),
                         opts_ipfsConf = None,
                         opts_rpcProviderUrl = None \<rparr>
                       opts)
                    w1))"

section \<open>Notions used to state the properties\<close>

text \<open>An entry of \<open>opts\<close> that \<^verbatim>\<open>!opts.keyring\<close> finds missing: not there, or falsy.\<close>

definition missing :: "jsval option \<Rightarrow> bool" where
  "missing v = (case v of None \<Rightarrow> True | Some x \<Rightarrow> \<not> truthy x)"

text \<open>
  What every instance the constructor builds satisfies, and \<^verbatim>\<open>updateDelegates\<close> keeps as
  long as the content store returns a non-empty address: the DID is not empty, and the
  content address is a non-empty string or the third segment of the DID (which is
  \<^verbatim>\<open>undefined\<close> for a DID of fewer than three segments).
\<close>

definition wellFormed :: "'k MuPort \<Rightarrow> bool" where
  "wellFormed this =
     (did this \<noteq> [] \<and>
      (present (documentHash this) \<or> documentHash this = index (split CHR '':'' (did this)) 2))"

text \<open>
  An identifier of this scheme: exactly the three segments \<^verbatim>\<open>did\<close>, \<^verbatim>\<open>muport\<close> and a
  content address that the base58 codec decodes and encodes back to itself.
\<close>

definition muportDid :: "'k env \<Rightarrow> string \<Rightarrow> bool" where
  "muportDid env d =
     (case split CHR '':'' d of
        [scheme, method, hash] \<Rightarrow>
          scheme = ''did'' \<and> method = ''muport'' \<and>
          (case bs58_decode env hash of Inl r \<Rightarrow> False | Inr b \<Rightarrow> bs58_encode env b = hash)
      | _ \<Rightarrow> False)"

text \<open>
  The key ring \<open>kd\<close> decrypts what the key ring \<open>ke\<close> encrypts: \<^verbatim>\<open>symEncrypt\<close> returns an
  object whose \<^verbatim>\<open>ciphertext\<close> and \<^verbatim>\<open>nonce\<close> give the buffer back under \<^verbatim>\<open>symDecrypt\<close>.
\<close>

definition symDecrypt_inverts :: "'k env \<Rightarrow> 'k \<Rightarrow> 'k \<Rightarrow> bool" where
  "symDecrypt_inverts env kd ke =
     (\<forall>buf. case (read_prop (symEncrypt env ke buf) ''ciphertext'',
                   read_prop (symEncrypt env ke buf) ''nonce'') of
              (Inr ciphertext, Inr nonce) \<Rightarrow> symDecrypt env kd ciphertext nonce True = Inr buf
            | _ \<Rightarrow> False)"

section \<open>A small environment to run the module in\<close>

text \<open>
  Collaborators simple enough to evaluate by hand. A key ring is its seed; the resolver
  knows every DID but \<^verbatim>\<open>did:muport:QmGone\<close> and answers with a document of three keys;
  the content store answers \<^verbatim>\<open>QmDoc\<close>; the base58 codec knows three addresses; the
  cipher writes the bytes out as numbers and uses the seed as nonce.
\<close>

definition demo_env :: "string env" where
  "demo_env =
     \<lparr> resolve = (\<lambda>reg d.
         if d = ''did:muport:QmGone'' then Inl ''not found''
         else Inr \<lparr> publicKey =
                      [\<lparr> key_id = d @ ''#signingKey'', publicKeyHex = Str ''04aa'',
                         publicKeyBase64 = Undefined \<rparr>,
                       \<lparr> key_id = d @ ''#managementKey'', publicKeyHex = Str ''04bb'',
                         publicKeyBase64 = Undefined \<rparr>,
                       \<lparr> key_id = d @ ''#encryptionKey'', publicKeyHex = Undefined,
                         publicKeyBase64 = Str d \<rparr>],
                    muportData = Some [(''nym'', Str ''delegate'')] \<rparr>),
       addJSONAsync = (\<lambda>conf doc. Inr ''QmDoc''),
       bs58_encode = (\<lambda>b. if b = [1] then ''QmD1'' else if b = [2] then ''QmD2''
                          else if b = [3] then ''QmD3'' else ''1''),
       bs58_decode = (\<lambda>h. if h = ''QmD1'' then Inr [1] else if h = ''QmD2'' then Inr [2]
                          else if h = ''QmD3'' then Inr [3] else Inl ''Non-base58 character''),
       Keyring_new = (\<lambda>s. case s of
                            None \<Rightarrow> Inr ''seed''
                          | Some (Str k) \<Rightarrow> Inr k
                          | Some v \<Rightarrow> Inl ''bad key material''),
       recoverKeyring = (\<lambda>shares. Inr ''seed''),
       serialize = Str,
       getPublicKeys = (\<lambda>k. \<lparr> signingKey = Str (k @ ''-sign''),
                               managementKey = Str (k @ ''-mgmt''),
                               asymEncryptionKey = Str (k @ ''-enc'') \<rparr>),
       createShares = (\<lambda>k dids keys. Inr (Arr keys)),
       symEncrypt = (\<lambda>k buf. Obj [(''ciphertext'', Arr (map (\<lambda>b. Num (uint b)) buf)),
                                  (''nonce'', Str k)]),
       symDecrypt = (\<lambda>k ciphertext nonce toBuffer.
                       case ciphertext of
                         Arr xs \<Rightarrow>
                           if nonce = Str k
                           then Inr (map (\<lambda>v. case v of Num i \<Rightarrow> word_of_int i | u \<Rightarrow> 0) xs)
                           else Inl ''integrity''
                       | v \<Rightarrow> Inl ''integrity''),
       getManagementAddress = (\<lambda>k. Str (k @ ''-addr'')),
       signManagementTx = (\<lambda>k tx. Obj [(''tx'', tx), (''signedBy'', Str k)]),
       createPublishTxParams =
         (\<lambda>rpc hash addr. Inr (Obj [(''data'', Str hash), (''from'', addr)])),
       calculateTxCost = (\<lambda>rpc tx. Num 1),
       sendRawTx = (\<lambda>rpc tx. Inr (Str ''0xreceipt'')) \<rparr>"

text \<open>The same environment with a content store that cannot be reached.\<close>

definition offline_env :: "string env" where
  "offline_env = demo_env\<lparr>addJSONAsync := (\<lambda>conf doc. Inl ''ipfs unreachable'')\<rparr>"

definition no_opts :: opts where
  "no_opts =
     \<lparr> opts_did = None, opts_document = None, opts_documentHash = None,
       opts_keyring = None, opts_ipfsConf = None, opts_rpcProviderUrl = None \<rparr>"

text \<open>The world before the module is used, and once an instance exists.\<close>

definition fresh_world :: world where
  "fresh_world = \<lparr> ipfs = None, resolver = None, published = [], sent = [] \<rparr>"

definition ready_world :: world where
  "ready_world = \<lparr> ipfs = Some IPFS_CONF, resolver = Some (None, None), published = [], sent = [] \<rparr>"

text \<open>The identity that \<^verbatim>\<open>newIdentity('Alice')\<close> creates in this environment.\<close>

definition alice :: "string MuPort" where
  "alice =
     \<lparr> did = ''did:muport:QmDoc'',
       document =
         [(''version'', Num 1), (''signingKey'', Str ''seed-sign''),
          (''managementKey'', Str ''seed-mgmt''), (''asymEncryptionKey'', Str ''seed-enc''),
          (''publicProfile'', Obj [(''name'', Str ''Alice'')]),
          (''symEncryptedData'', Obj [(''symEncDids'', Undefined)])],
       documentHash = Some ''QmDoc'',
       keyring = ''seed'',
       ethUtils = None \<rparr>"

definition delegates :: "string list" where
  "delegates = [''did:muport:QmD1'', ''did:muport:QmD2'', ''did:muport:QmD3'']"

lemmas demo_simps =
  demo_env_def no_opts_def fresh_world_def ready_world_def alice_def delegates_def
  newIdentity_def delegateData_def constructor_def updateDelegates_def
  resolveIdentityDocument_def createMuportDocument_def initIpfs_def
  registerMuportResolver_def spread_def present_def index_def get_def didToBuffer_def
  IPFS_CONF_def Let_def sublist_code(3)

section \<open>Properties of the parts\<close>

lemma resolveIdentityDocument_no_Error:
  "snd (resolveIdentityDocument env d opts w) \<noteq> Inl (Error m)"
  by (auto simp: resolveIdentityDocument_def Let_def split: sum.splits option.splits)

lemma didsPublicKeys_no_Error: "snd (didsPublicKeys env opts ds w) \<noteq> Inl (Error m)"
proof (induction ds arbitrary: w)
  case Nil
  show ?case by simp
next
  case (Cons d ds)
  obtain w1 r where r: "resolveIdentityDocument env d opts w = (w1, r)"
    by (cases "resolveIdentityDocument env d opts w")
  obtain w2 rs where rs: "didsPublicKeys env opts ds w1 = (w2, rs)"
    by (cases "didsPublicKeys env opts ds w1")
  have "r \<noteq> Inl (Error m)"
    using resolveIdentityDocument_no_Error [of env d opts w m] r by simp
  moreover have "rs \<noteq> Inl (Error m)"
    using Cons.IH [of w1] rs by simp
  ultimately show ?case
    using r rs by (auto split: sum.splits)
qed

text \<open>Resolving touches neither the content store handle nor the two logs.\<close>

lemma resolveIdentityDocument_frame:
  "ipfs (fst (resolveIdentityDocument env d opts w)) = ipfs w \<and>
   published (fst (resolveIdentityDocument env d opts w)) = published w \<and>
   sent (fst (resolveIdentityDocument env d opts w)) = sent w"
  by (auto simp: resolveIdentityDocument_def registerMuportResolver_def Let_def
           split: sum.splits option.splits)

lemma didsPublicKeys_frame:
  "ipfs (fst (didsPublicKeys env opts ds w)) = ipfs w \<and>
   published (fst (didsPublicKeys env opts ds w)) = published w \<and>
   sent (fst (didsPublicKeys env opts ds w)) = sent w"
proof (induction ds arbitrary: w)
  case Nil
  show ?case by simp
next
  case (Cons d ds)
  obtain w1 r where r: "resolveIdentityDocument env d opts w = (w1, r)"
    by (cases "resolveIdentityDocument env d opts w")
  obtain w2 rs where rs: "didsPublicKeys env opts ds w1 = (w2, rs)"
    by (cases "didsPublicKeys env opts ds w1")
  from resolveIdentityDocument_frame [of env d opts w] r
  have a: "ipfs w1 = ipfs w \<and> published w1 = published w \<and> sent w1 = sent w"
    by simp
  from Cons.IH [of w1] rs
  have b: "ipfs w2 = ipfs w1 \<and> published w2 = published w1 \<and> sent w2 = sent w1"
    by simp
  from a b r rs show ?case by simp
qed

lemma split_not_Nil: "split c s \<noteq> []"
  by (induction s) (auto split: list.splits)



lemma constructor_Inr:
  assumes "constructor env opts w = (w', Inr this)"
  shows "opts_did opts = Some (did this) \<and> did this \<noteq> [] \<and>
         opts_document opts = Some (document this) \<and>
         documentHash this =
           (if present (opts_documentHash opts) then opts_documentHash opts
            else index (split CHR '':'' (did this)) 2) \<and>
         (\<exists>kr. opts_keyring opts = Some kr \<and> truthy kr \<and>
               Keyring_new env (Some kr) = Inr (keyring this)) \<and>
         ethUtils this = opts_rpcProviderUrl opts \<and>
         published w' = published w \<and> sent w' = sent w"
  using assms
  by (auto simp: constructor_def Let_def initIpfs_def registerMuportResolver_def
           split: option.splits if_splits sum.splits)



lemma newIdentity_Inr:
  assumes "newIdentity env name dds opts w = (w', Inr this)"
  shows "\<exists>k w1 rn sed conf docHash.
           Keyring_new env None = Inr k \<and>
           delegateData env k dds opts (initIpfs (opts_ipfsConf opts) w) = (w1, Inr (rn, sed)) \<and>
           ipfs w1 = Some conf \<and>
           addJSONAsync env conf
             (createMuportDocument (getPublicKeys env k) rn (Obj [(''name'', name)])
                (Obj [(''symEncDids'', sed)])) = Inr docHash \<and>
           constructor env
             (spread
                \<lparr> opts_did = Some (''did:muport:'' @ docHash),
                  opts_document =
                    Some (createMuportDocument (getPublicKeys env k) rn (Obj [(''name'', name)])
                            (Obj [(''symEncDids'', sed)])),
                  opts_documentHash = Some docHash,
                  opts_keyring = Some (serialize env k),
                  opts_ipfsConf = None,
                  opts_rpcProviderUrl = None \<rparr>
                opts)
             (w1\<lparr>published := published w1 @
                [createMuportDocument (getPublicKeys env k) rn (Obj [(''name'', name)])
                   (Obj [(''symEncDids'', sed)])]\<rparr>) = (w', Inr this)"
  using assms
  by (auto simp: newIdentity_def Let_def split: sum.splits prod.splits option.splits)

lemma split_join: "split c s = seg # segs \<Longrightarrow> s = seg @ concat (map ((#) c) segs)"
proof (induction s arbitrary: seg segs)
  case Nil
  then show ?case by simp
next
  case (Cons x xs)
  obtain y ys where y: "split c xs = y # ys"
    using split_not_Nil [of c xs] by (cases "split c xs") auto
  show ?case
  proof (cases "x = c")
    case True
    with Cons.prems y have s: "seg = []" "segs = y # ys"
      by simp_all
    from Cons.IH [OF y] True s show ?thesis
      by simp
  next
    case False
    with Cons.prems y have s: "seg = x # y" "segs = ys"
      by simp_all
    from Cons.IH [OF y] s show ?thesis
      by simp
  qed
qed

lemma recoverIdentity_Inr:
  assumes "recoverIdentity env d shares opts w = (w', Inr this)"
  shows "\<exists>w1 doc k.
           constructor env
             (spread
                \<lparr> opts_did = Some d, opts_document = Some doc, opts_documentHash = None,
                  opts_keyring = Some (serialize env k), opts_ipfsConf = None,
                  opts_rpcProviderUrl = None \<rparr>
                opts)
             w1 = (w', Inr this)"
  using assms
  by (auto simp: recoverIdentity_def Let_def split: sum.splits prod.splits)

text \<open>Where the invariant of instances comes from.\<close>

lemma constructor_wellFormed:
  assumes "constructor env opts w = (w', Inr this)"
  shows "wellFormed this"
  using constructor_Inr [OF assms] by (auto simp: wellFormed_def)

lemma updateDelegates_wellFormed:
  assumes "wellFormed this"
    and "updateDelegates env this delegateDids w = (w', this', res)"
    and "\<And>conf doc. addJSONAsync env conf doc \<noteq> Inr []"
  shows "wellFormed this'"
proof -
  have "(did this' = did this \<and> documentHash this' = documentHash this) \<or>
        (did this' = did this \<and>
         (\<exists>conf doc h. addJSONAsync env conf doc = Inr h \<and> documentHash this' = Some h))"
    using assms(2)
    by (auto simp: updateDelegates_def Let_def
             split: if_splits prod.splits sum.splits option.splits)
  then show ?thesis
    using assms(1,3) by (auto simp: wellFormed_def present_def)
qed

lemma map_of_createMuportDocument:
  "map_of (createMuportDocument pk rn pp sed) ''recoveryNetwork'' =
     (if truthy rn then Some rn else None) \<and>
   map_of (createMuportDocument pk rn pp sed) ''publicProfile'' =
     (if truthy pp then Some pp else None) \<and>
   map_of (createMuportDocument pk rn pp sed) ''symEncryptedData'' =
     (if truthy sed then Some sed else None)"
  by (simp add: createMuportDocument_def update_conv')





text \<open>Encoding a DID of the scheme and decoding it again; encrypting and decrypting a list.\<close>

lemma muportDid_roundtrip:
  assumes "muportDid env d"
  shows "\<exists>buf. didToBuffer env d = Inr buf \<and> bufferToDid env buf = d"
proof -
  from assms obtain hash buf where
    s: "split CHR '':'' d = [''did'', ''muport'', hash]" and
    dec: "bs58_decode env hash = Inr buf" and
    enc: "bs58_encode env buf = hash"
    by (auto simp: muportDid_def split: list.splits sum.splits)
  from split_join [OF s] have d: "d = ''did:muport:'' @ hash"
    by simp
  from s dec have "didToBuffer env d = Inr buf"
    by (simp add: didToBuffer_def index_def del: split.simps)
  moreover from d enc have "bufferToDid env buf = d"
    by (simp add: bufferToDid_def)
  ultimately show ?thesis by blast
qed

lemma decryptDids_symEncryptDids:
  assumes inv: "symDecrypt_inverts env kd ke"
  shows "\<forall>d \<in> set dids. muportDid env d \<Longrightarrow> symEncryptDids env ke dids = Inr encs \<Longrightarrow>
         decryptDids env kd encs = Inr dids"
proof (induction dids arbitrary: encs)
  case Nil
  then show ?case by simp
next
  case (Cons d dids)
  from Cons.prems(1) have "muportDid env d"
    by simp
  then obtain buf where b: "didToBuffer env d = Inr buf" "bufferToDid env buf = d"
    using muportDid_roundtrip by blast
  from Cons.prems(2) b obtain rest where
    r: "symEncryptDids env ke dids = Inr rest" and e: "encs = symEncrypt env ke buf # rest"
    by (auto split: sum.splits)
  from inv have
    "case (read_prop (symEncrypt env ke buf) ''ciphertext'',
           read_prop (symEncrypt env ke buf) ''nonce'') of
       (Inr ciphertext, Inr nonce) \<Rightarrow> symDecrypt env kd ciphertext nonce True = Inr buf
     | _ \<Rightarrow> False"
    unfolding symDecrypt_inverts_def by (rule spec)
  then obtain ct n where
    c: "read_prop (symEncrypt env ke buf) ''ciphertext'' = Inr ct"
       "read_prop (symEncrypt env ke buf) ''nonce'' = Inr n"
       "symDecrypt env kd ct n True = Inr buf"
    by (cases "read_prop (symEncrypt env ke buf) ''ciphertext''";
        cases "read_prop (symEncrypt env ke buf) ''nonce''") auto
  from Cons.IH [OF _ r] Cons.prems(1) have "decryptDids env kd rest = Inr dids"
    by simp
  with e c b show ?case
    by simp
qed

lemma demo_symDecrypt_inverts: "symDecrypt_inverts demo_env k k"
  by (simp add: symDecrypt_inverts_def demo_env_def get_def comp_def)

section \<open>The claims\<close>

subsection \<open>C1: the length check of updateDelegates\<close>

text \<open>
  Claim C1. For every list of delegate identifiers, the outcome of \<^verbatim>\<open>updateDelegates\<close>
  is its validation error \<^verbatim>\<open>Must provide exactly 3 DIDs\<close> if and only if the list's
  length is not 3: with a list of length 3 the call never fails with this error,
  whatever the collaborators do and whatever else happens. When the length is not 3 the
  error is thrown before anything else happens, so the world and the instance are as
  before.
\<close>

theorem updateDelegates_throws_iff_not_three:
  "(snd (snd (updateDelegates env this delegateDids w)) =
      Inl (Error ''Must provide exactly 3 DIDs'')
    \<longleftrightarrow> length delegateDids \<noteq> 3) \<and>
   (length delegateDids \<noteq> 3 \<longrightarrow>
      fst (updateDelegates env this delegateDids w) = w \<and>
      fst (snd (updateDelegates env this delegateDids w)) = this)"
proof (rule conjI)
  show "snd (snd (updateDelegates env this delegateDids w)) =
          Inl (Error ''Must provide exactly 3 DIDs'')
        \<longleftrightarrow> length delegateDids \<noteq> 3"
  proof
    assume e: "snd (snd (updateDelegates env this delegateDids w)) =
                 Inl (Error ''Must provide exactly 3 DIDs'')"
    show "length delegateDids \<noteq> 3"
    proof
      assume len: "length delegateDids = 3"
      obtain w1 ks where ks: "didsPublicKeys env None delegateDids w = (w1, ks)"
        by (cases "didsPublicKeys env None delegateDids w")
      have "ks \<noteq> Inl (Error ''Must provide exactly 3 DIDs'')"
        using didsPublicKeys_no_Error [of env None delegateDids w] ks by simp
      with e len ks show False
        by (auto simp: updateDelegates_def Let_def split: sum.splits option.splits)
    qed
  next
    assume "length delegateDids \<noteq> 3"
    then show "snd (snd (updateDelegates env this delegateDids w)) =
                 Inl (Error ''Must provide exactly 3 DIDs'')"
      by (simp add: updateDelegates_def)
  qed
next
  show "length delegateDids \<noteq> 3 \<longrightarrow>
          fst (updateDelegates env this delegateDids w) = w \<and>
          fst (snd (updateDelegates env this delegateDids w)) = this"
    by (simp add: updateDelegates_def)
qed

text \<open>
  Two delegates are refused with the validation error and nothing changes; with the
  three delegates of the small environment the outcome is not this error.
\<close>

theorem updateDelegates_throws_iff_not_three_witness:
  "snd (snd (updateDelegates demo_env alice [''did:muport:QmD1'', ''did:muport:QmD2'']
               ready_world)) = Inl (Error ''Must provide exactly 3 DIDs'') \<and>
   fst (updateDelegates demo_env alice [''did:muport:QmD1'', ''did:muport:QmD2'']
          ready_world) = ready_world \<and>
   fst (snd (updateDelegates demo_env alice [''did:muport:QmD1'', ''did:muport:QmD2'']
               ready_world)) = alice \<and>
   length delegates = 3 \<and>
   snd (snd (updateDelegates demo_env alice delegates ready_world)) \<noteq>
     Inl (Error ''Must provide exactly 3 DIDs'')"
  using updateDelegates_throws_iff_not_three
          [of demo_env alice "[''did:muport:QmD1'', ''did:muport:QmD2'']" ready_world]
        updateDelegates_throws_iff_not_three [of demo_env alice delegates ready_world]
  by (simp add: delegates_def)

subsection \<open>C2: the version after updateDelegates\<close>

text \<open>
  Claim C2 says that the document republished by a successful \<^verbatim>\<open>updateDelegates\<close>
  has a version strictly greater than before. The code has no counter: the only place
  that writes \<^verbatim>\<open>version\<close> is \<^verbatim>\<open>createMuportDocument\<close>, which sets it to 1, and
  \<^verbatim>\<open>updateDelegates\<close> assigns \<^verbatim>\<open>recoveryNetwork\<close> and nothing else.

  Claim C2, as amended. For every identity, after a successful \<^verbatim>\<open>updateDelegates\<close> the
  document handed to the content store is the identity's document, and its \<^verbatim>\<open>version\<close>
  entry is the one the document had before the update; every document that
  \<^verbatim>\<open>createMuportDocument\<close> builds has version 1.
\<close>

theorem updateDelegates_keeps_version:
  assumes "updateDelegates env this delegateDids w = (w', this', Inr r)"
  shows "published w' = published w @ [document this'] \<and>
         map_of (document this') ''version'' = map_of (document this) ''version'' \<and>
         map_of (createMuportDocument publicKeys recoveryNetwork publicProfile symEncryptedData)
           ''version'' = Some (Num 1)"
proof -
  obtain w1 ks where ks: "didsPublicKeys env None delegateDids w = (w1, ks)"
    by (cases "didsPublicKeys env None delegateDids w")
  have fr: "published w1 = published w"
    using didsPublicKeys_frame [of env None delegateDids w] ks by simp
  have "\<exists>rn. document this' = AList.update ''recoveryNetwork'' rn (document this) \<and>
             published w' = published w1 @ [document this']"
    using assms ks
    by (auto simp: updateDelegates_def Let_def split: if_splits sum.splits option.splits)
  with fr have "published w' = published w @ [document this']"
    and "map_of (document this') ''version'' = map_of (document this) ''version''"
    by (auto simp: update_conv')
  moreover
  have "map_of (createMuportDocument publicKeys recoveryNetwork publicProfile symEncryptedData)
          ''version'' = Some (Num 1)"
    by (simp add: createMuportDocument_def Let_def update_conv')
  ultimately show ?thesis by simp
qed

text \<open>
  In the small environment the update of Alice's delegates succeeds and the version is 1
  before and after.
\<close>

theorem updateDelegates_keeps_version_witness:
  "\<not> isl (snd (snd (updateDelegates demo_env alice delegates ready_world))) \<and>
   map_of (document (fst (snd (updateDelegates demo_env alice delegates ready_world)))) ''version''
     = map_of (document alice) ''version''"
proof -
  obtain w' this' r where
    u: "updateDelegates demo_env alice delegates ready_world = (w', this', Inr r)"
    by (simp add: demo_simps)
  from updateDelegates_keeps_version [OF u] u show ?thesis by simp
qed

text \<open>
  The claim as stated fails there: the call succeeds, and the version is 1 before the
  update and 1 after it, not greater.
\<close>

theorem updateDelegates_version_not_greater:
  "\<not> isl (snd (snd (updateDelegates demo_env alice delegates ready_world))) \<and>
   map_of (document alice) ''version'' = Some (Num 1) \<and>
   map_of (document (fst (snd (updateDelegates demo_env alice delegates ready_world)))) ''version''
     = Some (Num 1)"
  by (simp add: demo_simps)

subsection \<open>C3: optional fields of the document\<close>

text \<open>
  Claim C3 says that an absent optional input leaves no key in the document, and that an
  identity created without delegates therefore has no \<^verbatim>\<open>symEncryptedData\<close>. The first
  half is what \<^verbatim>\<open>createMuportDocument\<close> does. The second is not: \<^verbatim>\<open>newIdentity\<close> always
  passes the wrapper object \<^verbatim>\<open>{symEncDids: symEncryptedDelegateDids}\<close>, which is truthy
  also when the variable inside is \<^verbatim>\<open>undefined\<close>, and \<^verbatim>\<open>getRecoveryDelegateDids\<close> reads
  \<^verbatim>\<open>this.document.symEncryptedData.symEncDids\<close> without a test, which relies on the
  wrapper being there.

  Claim C3, as amended. \<^verbatim>\<open>createMuportDocument\<close> adds each of \<^verbatim>\<open>recoveryNetwork\<close>,
  \<^verbatim>\<open>publicProfile\<close> and \<^verbatim>\<open>symEncryptedData\<close> exactly when its argument is truthy; for an
  absent argument the key is not in the document at all. The document that
  \<^verbatim>\<open>newIdentity\<close> assembles and publishes for an identity without delegates (and gives
  the identity, unless \<open>opts\<close> brings a document) has no \<^verbatim>\<open>recoveryNetwork\<close> key, has
  \<^verbatim>\<open>publicProfile\<close>, and has \<^verbatim>\<open>symEncryptedData\<close> with the value
  \<^verbatim>\<open>{symEncDids: undefined}\<close>.
\<close>

theorem optional_fields_of_document:
  "map_of (createMuportDocument pk rn pp sed) ''recoveryNetwork'' =
     (if truthy rn then Some rn else None) \<and>
   map_of (createMuportDocument pk rn pp sed) ''publicProfile'' =
     (if truthy pp then Some pp else None) \<and>
   map_of (createMuportDocument pk rn pp sed) ''symEncryptedData'' =
     (if truthy sed then Some sed else None) \<and>
   (newIdentity env name None opts w = (w', Inr this) \<longrightarrow>
      (\<exists>doc. published w' = published w @ [doc] \<and>
             (opts_document opts = None \<longrightarrow> document this = doc) \<and>
             map_of doc ''recoveryNetwork'' = None \<and>
             map_of doc ''publicProfile'' = Some (Obj [(''name'', name)]) \<and>
             map_of doc ''symEncryptedData'' = Some (Obj [(''symEncDids'', Undefined)])))"
proof (intro conjI impI)
  assume new: "newIdentity env name None opts w = (w', Inr this)"
  let ?w0 = "initIpfs (opts_ipfsConf opts) w"
  from newIdentity_Inr [OF new] obtain k w1 rn sed docHash where
    dd: "delegateData env k None opts ?w0 = (w1, Inr (rn, sed))" and
    con: "constructor env
            (spread
               \<lparr> opts_did = Some (''did:muport:'' @ docHash),
                 opts_document =
                   Some (createMuportDocument (getPublicKeys env k) rn (Obj [(''name'', name)])
                           (Obj [(''symEncDids'', sed)])),
                 opts_documentHash = Some docHash,
                 opts_keyring = Some (serialize env k),
                 opts_ipfsConf = None,
                 opts_rpcProviderUrl = None \<rparr>
               opts)
            (w1\<lparr>published := published w1 @
               [createMuportDocument (getPublicKeys env k) rn (Obj [(''name'', name)])
                  (Obj [(''symEncDids'', sed)])]\<rparr>) = (w', Inr this)"
    by blast
  from dd have u: "rn = Undefined" "sed = Undefined" "w1 = ?w0"
    by (simp_all add: delegateData_def)
  let ?doc = "createMuportDocument (getPublicKeys env k) Undefined (Obj [(''name'', name)])
                (Obj [(''symEncDids'', Undefined)])"
  note c = constructor_Inr [OF con]
  from c u have p: "published w' = published w @ [?doc]"
    by (simp add: initIpfs_def)
  have d: "opts_document opts = None \<longrightarrow> document this = ?doc"
    using c u by (auto simp: spread_def)
  from p d map_of_createMuportDocument
         [of "getPublicKeys env k" Undefined "Obj [(''name'', name)]"
             "Obj [(''symEncDids'', Undefined)]"]
  show "\<exists>doc. published w' = published w @ [doc] \<and>
             (opts_document opts = None \<longrightarrow> document this = doc) \<and>
             map_of doc ''recoveryNetwork'' = None \<and>
             map_of doc ''publicProfile'' = Some (Obj [(''name'', name)]) \<and>
             map_of doc ''symEncryptedData'' = Some (Obj [(''symEncDids'', Undefined)])"
    by (intro exI [of _ ?doc]) simp
qed (simp_all add: map_of_createMuportDocument)

text \<open>
  Alice, created without delegates in the small environment.
\<close>

theorem optional_fields_of_document_witness:
  "map_of (document alice) ''recoveryNetwork'' = None \<and>
   map_of (document alice) ''publicProfile'' = Some (Obj [(''name'', Str ''Alice'')]) \<and>
   map_of (document alice) ''symEncryptedData'' = Some (Obj [(''symEncDids'', Undefined)])"
proof -
  obtain wa where a: "newIdentity demo_env (Str ''Alice'') None no_opts fresh_world = (wa, Inr alice)"
    by (simp add: demo_simps)
  have n: "opts_document no_opts = None"
    by (simp add: no_opts_def)
  from optional_fields_of_document [of _ _ _ _ demo_env "Str ''Alice''" no_opts fresh_world wa alice] a n
  show ?thesis by auto
qed

text \<open>
  The claim as stated fails for Alice: she is created without delegates and her
  document has the key \<^verbatim>\<open>symEncryptedData\<close>.
\<close>

theorem newIdentity_without_delegates_has_symEncryptedData:
  "snd (newIdentity demo_env (Str ''Alice'') None no_opts fresh_world) = Inr alice \<and>
   map_of (document alice) ''symEncryptedData'' = Some (Obj [(''symEncDids'', Undefined)])"
  by (simp add: demo_simps)

subsection \<open>C4: what a failed updateDelegates leaves behind\<close>

text \<open>
  Claim C4 says that a failing \<^verbatim>\<open>updateDelegates\<close> leaves document and content address
  as they were, whether resolution, share creation or publication fails. The code
  assigns \<^verbatim>\<open>this.document.recoveryNetwork\<close> before it awaits the publication and has no
  step that takes the assignment back.

  Claim C4, as amended. If \<^verbatim>\<open>updateDelegates\<close> fails at the length check, at the
  resolution of a delegate or at share creation, the instance (document and content
  address) is unchanged and nothing has been handed to the content store. If the
  publication is rejected, the content address is unchanged, while the document already
  carries the new \<^verbatim>\<open>recoveryNetwork\<close>.
\<close>

theorem updateDelegates_failure_state:
  "(length delegateDids \<noteq> 3 \<or>
    isl (snd (didsPublicKeys env None delegateDids w)) \<or>
    (\<exists>keys. snd (didsPublicKeys env None delegateDids w) = Inr keys \<and>
            isl (createShares env (keyring this) delegateDids keys))
    \<longrightarrow> isl (snd (snd (updateDelegates env this delegateDids w))) \<and>
        fst (snd (updateDelegates env this delegateDids w)) = this \<and>
        published (fst (updateDelegates env this delegateDids w)) = published w) \<and>
   (length delegateDids = 3 \<and>
    didsPublicKeys env None delegateDids w = (w1, Inr keys) \<and>
    createShares env (keyring this) delegateDids keys = Inr recoveryNetwork \<and>
    ipfs w1 = Some conf \<and>
    addJSONAsync env conf (AList.update ''recoveryNetwork'' recoveryNetwork (document this)) = Inl r
    \<longrightarrow> updateDelegates env this delegateDids w =
          (w1\<lparr>published := published w1 @
                 [AList.update ''recoveryNetwork'' recoveryNetwork (document this)]\<rparr>,
           this\<lparr>document := AList.update ''recoveryNetwork'' recoveryNetwork (document this)\<rparr>,
           Inl (Rejected r)))"
proof (rule conjI)
  show "length delegateDids \<noteq> 3 \<or>
        isl (snd (didsPublicKeys env None delegateDids w)) \<or>
        (\<exists>keys. snd (didsPublicKeys env None delegateDids w) = Inr keys \<and>
                isl (createShares env (keyring this) delegateDids keys))
        \<longrightarrow> isl (snd (snd (updateDelegates env this delegateDids w))) \<and>
            fst (snd (updateDelegates env this delegateDids w)) = this \<and>
            published (fst (updateDelegates env this delegateDids w)) = published w"
  proof (rule impI)
    assume a: "length delegateDids \<noteq> 3 \<or>
               isl (snd (didsPublicKeys env None delegateDids w)) \<or>
               (\<exists>keys. snd (didsPublicKeys env None delegateDids w) = Inr keys \<and>
                       isl (createShares env (keyring this) delegateDids keys))"
    obtain w2 ks where ks: "didsPublicKeys env None delegateDids w = (w2, ks)"
      by (cases "didsPublicKeys env None delegateDids w")
    have fr: "published w2 = published w"
      using didsPublicKeys_frame [of env None delegateDids w] ks by simp
    from a ks fr
    show "isl (snd (snd (updateDelegates env this delegateDids w))) \<and>
          fst (snd (updateDelegates env this delegateDids w)) = this \<and>
          published (fst (updateDelegates env this delegateDids w)) = published w"
      by (auto simp: updateDelegates_def isl_def split: sum.splits)
  qed
next
  show "length delegateDids = 3 \<and>
        didsPublicKeys env None delegateDids w = (w1, Inr keys) \<and>
        createShares env (keyring this) delegateDids keys = Inr recoveryNetwork \<and>
        ipfs w1 = Some conf \<and>
        addJSONAsync env conf
          (AList.update ''recoveryNetwork'' recoveryNetwork (document this)) = Inl r
        \<longrightarrow> updateDelegates env this delegateDids w =
              (w1\<lparr>published := published w1 @
                     [AList.update ''recoveryNetwork'' recoveryNetwork (document this)]\<rparr>,
               this\<lparr>document :=
                      AList.update ''recoveryNetwork'' recoveryNetwork (document this)\<rparr>,
               Inl (Rejected r))"
    by (simp add: updateDelegates_def Let_def)
qed

text \<open>
  A delegate that does not resolve leaves Alice as she was; with the content store out
  of reach her content address stays.
\<close>

theorem updateDelegates_failure_state_witness:
  "updateDelegates demo_env alice (''did:muport:QmGone'' # tl delegates) ready_world =
     (ready_world, alice, Inl (Rejected ''not found'')) \<and>
   documentHash (fst (snd (updateDelegates offline_env alice delegates ready_world))) =
     documentHash alice"
proof -
  let ?gone = "''did:muport:QmGone'' # tl delegates"
  obtain w2 e where k: "didsPublicKeys demo_env None ?gone ready_world = (w2, Inl e)"
    by (simp add: demo_simps)
  have g: "updateDelegates demo_env alice ?gone ready_world =
             (ready_world, alice, Inl (Rejected ''not found''))"
    by (simp add: demo_simps)
  from k have i: "isl (snd (didsPublicKeys demo_env None ?gone ready_world))"
    by simp
  obtain w3 keys where
    k3: "didsPublicKeys offline_env None delegates ready_world = (w3, Inr keys)"
    by (simp add: offline_env_def demo_simps)
  have s: "createShares offline_env (keyring alice) delegates keys = Inr (Arr keys)"
    by (simp add: offline_env_def demo_env_def)
  have c: "ipfs w3 = Some IPFS_CONF"
    using didsPublicKeys_frame [of offline_env None delegates ready_world] k3
    by (simp add: ready_world_def)
  have p: "addJSONAsync offline_env IPFS_CONF
             (AList.update ''recoveryNetwork'' (Arr keys) (document alice)) =
             Inl ''ipfs unreachable''"
    by (simp add: offline_env_def)
  have l: "length delegates = 3"
    by (simp add: delegates_def)
  from updateDelegates_failure_state [of ?gone demo_env ready_world alice] i g
  have 1: "fst (snd (updateDelegates demo_env alice ?gone ready_world)) = alice"
    by blast
  from updateDelegates_failure_state [of delegates offline_env ready_world alice w3 keys "Arr keys" IPFS_CONF
              "''ipfs unreachable''"] l k3 s c p
  have 2: "documentHash (fst (snd (updateDelegates offline_env alice delegates ready_world)))
             = documentHash alice"
    by simp
  from 1 2 g show ?thesis by simp
qed

text \<open>
  The claim as stated fails when the content store is out of reach: the call is
  rejected, and Alice's document, which had no \<^verbatim>\<open>recoveryNetwork\<close>, now has the new
  one.
\<close>

theorem updateDelegates_publish_failure_changes_document:
  "snd (snd (updateDelegates offline_env alice delegates ready_world)) =
     Inl (Rejected ''ipfs unreachable'') \<and>
   map_of (document alice) ''recoveryNetwork'' = None \<and>
   map_of (document (fst (snd (updateDelegates offline_env alice delegates ready_world))))
     ''recoveryNetwork'' =
     Some (Arr [Str ''did:muport:QmD1'', Str ''did:muport:QmD2'', Str ''did:muport:QmD3''])"
  by (simp add: offline_env_def demo_simps)

subsection \<open>C5: updateDelegates signs, finishUpdate sends\<close>

text \<open>
  Claim C5. A successful \<^verbatim>\<open>updateDelegates\<close> hands no transaction to \<^verbatim>\<open>sendRawTx\<close>.
  It returns the management address, the cost computed from the transaction parameters
  for the new content address, and \<^verbatim>\<open>finishUpdate\<close>; calling \<^verbatim>\<open>finishUpdate\<close> hands
  exactly the transaction signed from those parameters to \<^verbatim>\<open>sendRawTx\<close>.
\<close>

theorem updateDelegates_does_not_broadcast:
  assumes "updateDelegates env this delegateDids w = (w', this', Inr r)"
  shows "sent w' = sent w \<and>
         address r = getManagementAddress env (keyring this) \<and>
         (\<exists>hash txParams.
            documentHash this' = Some hash \<and>
            createPublishTxParams env (ethUtils this) hash (address r) = Inr txParams \<and>
            costInEther r = calculateTxCost env (ethUtils this) txParams \<and>
            (\<forall>v. sent (fst (finishUpdate r v)) =
                  sent v @ [signManagementTx env (keyring this) txParams]))"
proof -
  obtain w1 ks where ks: "didsPublicKeys env None delegateDids w = (w1, ks)"
    by (cases "didsPublicKeys env None delegateDids w")
  have fr: "sent w1 = sent w"
    using didsPublicKeys_frame [of env None delegateDids w] ks by simp
  show ?thesis
    using assms ks fr
    by (auto simp: updateDelegates_def Let_def split: if_splits sum.splits option.splits)
qed

text \<open>
  In the small environment nothing is sent by the update, and \<^verbatim>\<open>finishUpdate\<close> sends the
  one signed transaction.
\<close>

theorem updateDelegates_does_not_broadcast_witness:
  "\<not> isl (snd (snd (updateDelegates demo_env alice delegates ready_world))) \<and>
   sent (fst (updateDelegates demo_env alice delegates ready_world)) = [] \<and>
   address (projr (snd (snd (updateDelegates demo_env alice delegates ready_world))))
     = Str ''seed-addr'' \<and>
   costInEther (projr (snd (snd (updateDelegates demo_env alice delegates ready_world))))
     = Num 1 \<and>
   sent (fst (finishUpdate
                (projr (snd (snd (updateDelegates demo_env alice delegates ready_world))))
                (fst (updateDelegates demo_env alice delegates ready_world)))) =
     [Obj [(''tx'', Obj [(''data'', Str ''QmDoc''), (''from'', Str ''seed-addr'')]),
           (''signedBy'', Str ''seed'')]]"
proof -
  obtain w' this' r where
    u: "updateDelegates demo_env alice delegates ready_world = (w', this', Inr r)"
    by (simp add: demo_simps)
  have h: "documentHash this' = Some ''QmDoc''"
    using u by (auto simp: demo_simps)
  from updateDelegates_does_not_broadcast [OF u] h u show ?thesis
    by (auto simp: demo_env_def alice_def ready_world_def)
qed

subsection \<open>C6: the identifier of a new identity\<close>




subsection \<open>C7: the encrypted delegate list\<close>

text \<open>
  Claim C7 says that \<^verbatim>\<open>getRecoveryDelegateDids\<close> of an identity created with delegates
  returns those delegates, in order, when the key ring decrypts what it encrypts. Two
  things are needed besides: the delegates are identifiers of this scheme (the list
  keeps the base58 bytes of the third segment only, and \<^verbatim>\<open>bufferToDid\<close> puts
  \<^verbatim>\<open>did:muport:\<close> in front), and the identity holds the document that was assembled,
  which a \<^verbatim>\<open>document\<close> entry of \<open>opts\<close> would replace.

  Claim C7, as amended. For every identity created by \<^verbatim>\<open>newIdentity\<close> with a list of
  delegate DIDs of this scheme (of three or any other number of entries) and an \<open>opts\<close>
  without a \<^verbatim>\<open>document\<close> entry, \<^verbatim>\<open>getRecoveryDelegateDids\<close> returns exactly that list,
  in order, provided the key ring of the identity decrypts what the key ring that
  \<^verbatim>\<open>newIdentity\<close> generated encrypts.
\<close>

theorem delegate_dids_roundtrip:
  assumes new: "newIdentity env name (Some delegateDids) opts w = (w', Inr this)"
    and nodoc: "opts_document opts = None"
    and valid: "\<forall>d \<in> set delegateDids. muportDid env d"
    and fresh: "Keyring_new env None = Inr ke"
    and inv: "symDecrypt_inverts env (keyring this) ke"
  shows "getRecoveryDelegateDids env this = Inr delegateDids"
proof -
  let ?w0 = "initIpfs (opts_ipfsConf opts) w"
  from newIdentity_Inr [OF new] fresh obtain w1 rn sed docHash where
    dd: "delegateData env ke (Some delegateDids) opts ?w0 = (w1, Inr (rn, sed))" and
    con: "constructor env
            (spread
               \<lparr> opts_did = Some (''did:muport:'' @ docHash),
                 opts_document =
                   Some (createMuportDocument (getPublicKeys env ke) rn (Obj [(''name'', name)])
                           (Obj [(''symEncDids'', sed)])),
                 opts_documentHash = Some docHash,
                 opts_keyring = Some (serialize env ke),
                 opts_ipfsConf = None,
                 opts_rpcProviderUrl = None \<rparr>
               opts)
            (w1\<lparr>published := published w1 @
               [createMuportDocument (getPublicKeys env ke) rn (Obj [(''name'', name)])
                  (Obj [(''symEncDids'', sed)])]\<rparr>) = (w', Inr this)"
    by auto
  from dd obtain encs where
    encs: "symEncryptDids env ke delegateDids = Inr encs" and sed: "sed = Arr encs"
    by (auto simp: delegateData_def split: prod.splits sum.splits)
  from constructor_Inr [OF con] nodoc
  have doc: "document this =
               createMuportDocument (getPublicKeys env ke) rn (Obj [(''name'', name)])
                 (Obj [(''symEncDids'', sed)])"
    by (auto simp: spread_def)
  have "get (document this) ''symEncryptedData'' = Obj [(''symEncDids'', Arr encs)]"
    using map_of_createMuportDocument
            [of "getPublicKeys env ke" rn "Obj [(''name'', name)]" "Obj [(''symEncDids'', sed)]"]
          doc sed
    by (simp add: get_def)
  then have "getRecoveryDelegateDids env this = decryptDids env (keyring this) encs"
    by (simp add: getRecoveryDelegateDids_def get_def)
  with decryptDids_symEncryptDids [OF inv valid encs] show ?thesis
    by simp
qed

text \<open>
  Alice with the three delegates of the small environment.
\<close>

theorem delegate_dids_roundtrip_witness:
  "muportDid demo_env ''did:muport:QmD1'' \<and> muportDid demo_env ''did:muport:QmD2'' \<and>
   muportDid demo_env ''did:muport:QmD3'' \<and>
   symDecrypt_inverts demo_env ''seed'' ''seed'' \<and>
   \<not> isl (snd (newIdentity demo_env (Str ''Alice'') (Some delegates) no_opts fresh_world)) \<and>
   getRecoveryDelegateDids demo_env
     (projr (snd (newIdentity demo_env (Str ''Alice'') (Some delegates) no_opts fresh_world)))
     = Inr [''did:muport:QmD1'', ''did:muport:QmD2'', ''did:muport:QmD3'']"
proof -
  have v: "muportDid demo_env ''did:muport:QmD1''" "muportDid demo_env ''did:muport:QmD2''"
    "muportDid demo_env ''did:muport:QmD3''"
    by (simp_all add: muportDid_def demo_env_def)
  then have valid: "\<forall>d \<in> set delegates. muportDid demo_env d"
    by (simp add: delegates_def)
  obtain w' this where
    n: "newIdentity demo_env (Str ''Alice'') (Some delegates) no_opts fresh_world = (w', Inr this)"
    and k: "keyring this = ''seed''"
    by (simp add: demo_simps)
  have o: "opts_document no_opts = None"
    by (simp add: no_opts_def)
  have f: "Keyring_new demo_env None = Inr ''seed''"
    by (simp add: demo_env_def)
  have i: "symDecrypt_inverts demo_env (keyring this) ''seed''"
    using k demo_symDecrypt_inverts by simp
  from delegate_dids_roundtrip [OF n o valid f i] n v demo_symDecrypt_inverts [of "''seed''"] show ?thesis
    by (simp add: delegates_def)
qed

text \<open>
  The claim as stated fails when \<open>opts\<close> carries a \<^verbatim>\<open>document\<close>: the three delegates
  are valid, creation succeeds, and the identity reports no delegates.
\<close>

theorem delegate_dids_lost_when_opts_brings_document:
  "muportDid demo_env ''did:muport:QmD1'' \<and> muportDid demo_env ''did:muport:QmD2'' \<and>
   muportDid demo_env ''did:muport:QmD3'' \<and>
   \<not> isl (snd (newIdentity demo_env (Str ''Alice'') (Some delegates)
                 (no_opts\<lparr>opts_document := Some [(''symEncryptedData'', Obj [])]\<rparr>)
                 fresh_world)) \<and>
   getRecoveryDelegateDids demo_env
     (projr (snd (newIdentity demo_env (Str ''Alice'') (Some delegates)
                    (no_opts\<lparr>opts_document := Some [(''symEncryptedData'', Obj [])]\<rparr>)
                    fresh_world))) = Inr []"
  by (simp add: muportDid_def getRecoveryDelegateDids_def demo_simps)

subsection \<open>C8: no validation of the delegate list at creation\<close>




subsection \<open>C9: serializeState and the constructor\<close>

text \<open>
  Claim C9. \<^verbatim>\<open>serializeState\<close> returns the four entries \<^verbatim>\<open>did\<close>, \<^verbatim>\<open>document\<close>,
  \<^verbatim>\<open>documentHash\<close> and \<^verbatim>\<open>keyring\<close> (the serialized key ring) and no other. The
  constructor, given this state, builds an identity with the same \<^verbatim>\<open>did\<close>, \<^verbatim>\<open>document\<close>
  and \<^verbatim>\<open>documentHash\<close>, for every well-formed instance whose key ring serializes to a
  truthy state that the key ring constructor accepts.
\<close>

theorem serializeState_restores:
  assumes wf: "wellFormed this"
    and ser: "truthy (serialize env (keyring this))"
    and res: "Keyring_new env (Some (serialize env (keyring this))) = Inr k"
  shows "opts_did (serializeState env this) = Some (did this) \<and>
         opts_document (serializeState env this) = Some (document this) \<and>
         opts_documentHash (serializeState env this) = documentHash this \<and>
         opts_keyring (serializeState env this) = Some (serialize env (keyring this)) \<and>
         opts_ipfsConf (serializeState env this) = None \<and>
         opts_rpcProviderUrl (serializeState env this) = None \<and>
         (\<exists>w' this'. constructor env (serializeState env this) w = (w', Inr this') \<and>
            did this' = did this \<and> document this' = document this \<and>
            documentHash this' = documentHash this)"
proof -
  let ?h = "if present (documentHash this) then documentHash this
            else index (split CHR '':'' (did this)) 2"
  have c: "constructor env (serializeState env this) w =
             (registerMuportResolver None None (initIpfs None w),
              Inr \<lparr> did = did this, document = document this, documentHash = ?h,
                    keyring = k, ethUtils = None \<rparr>)"
    using wf ser res
    by (simp add: constructor_def serializeState_def wellFormed_def Let_def del: split.simps)
  have h: "?h = documentHash this"
    using wf by (auto simp: wellFormed_def)
  from c h show ?thesis
    by (simp add: serializeState_def del: split.simps)
qed

text \<open>
  Alice is restored from her serialized state.
\<close>

theorem serializeState_restores_witness:
  "wellFormed alice \<and> truthy (serialize demo_env (keyring alice)) \<and>
   did (projr (snd (constructor demo_env (serializeState demo_env alice) fresh_world))) = did alice \<and>
   document (projr (snd (constructor demo_env (serializeState demo_env alice) fresh_world)))
     = document alice \<and>
   documentHash (projr (snd (constructor demo_env (serializeState demo_env alice) fresh_world)))
     = documentHash alice"
proof -
  have wf: "wellFormed alice"
    by (simp add: wellFormed_def alice_def present_def)
  have ser: "truthy (serialize demo_env (keyring alice))"
    by (simp add: demo_env_def alice_def)
  have res: "Keyring_new demo_env (Some (serialize demo_env (keyring alice))) = Inr ''seed''"
    by (simp add: demo_env_def alice_def)
  from serializeState_restores [OF wf ser res, of fresh_world] wf ser show ?thesis
    by auto
qed

subsection \<open>C10: the constructor\<close>

text \<open>
  Claim C10. An identity constructed without a \<^verbatim>\<open>documentHash\<close> (none given, or the
  empty string), directly or through \<^verbatim>\<open>recoverIdentity\<close>, has as \<^verbatim>\<open>documentHash\<close> the
  third colon-separated segment of its \<^verbatim>\<open>did\<close> (\<^verbatim>\<open>undefined\<close> when the DID has fewer
  segments). When \<^verbatim>\<open>did\<close>, \<^verbatim>\<open>document\<close> or \<^verbatim>\<open>keyring\<close> is missing the constructor
  throws \<^verbatim>\<open>Data missing for restoring identity\<close> and the world is as before.
\<close>

theorem constructor_documentHash_and_missing_data:
  "(constructor env opts w = (w', Inr this) \<and> \<not> present (opts_documentHash opts) \<longrightarrow>
      documentHash this = index (split CHR '':'' (did this)) 2) \<and>
   (recoverIdentity env d shares opts w = (w', Inr this) \<and> \<not> present (opts_documentHash opts) \<longrightarrow>
      documentHash this = index (split CHR '':'' (did this)) 2) \<and>
   (\<not> present (opts_did opts) \<or> opts_document opts = None \<or> missing (opts_keyring opts) \<longrightarrow>
      constructor env opts w = (w, Inl (Error ''Data missing for restoring identity'')))"
proof (intro conjI impI)
  assume "constructor env opts w = (w', Inr this) \<and> \<not> present (opts_documentHash opts)"
  then show "documentHash this = index (split CHR '':'' (did this)) 2"
    using constructor_Inr [of env opts w w' this] by simp
next
  assume a: "recoverIdentity env d shares opts w = (w', Inr this) \<and>
             \<not> present (opts_documentHash opts)"
  then obtain w1 doc k where
    c: "constructor env
          (spread
             \<lparr> opts_did = Some d, opts_document = Some doc, opts_documentHash = None,
               opts_keyring = Some (serialize env k), opts_ipfsConf = None,
               opts_rpcProviderUrl = None \<rparr>
             opts)
          w1 = (w', Inr this)"
    using recoverIdentity_Inr by blast
  have "opts_documentHash
          (spread
             \<lparr> opts_did = Some d, opts_document = Some doc, opts_documentHash = None,
               opts_keyring = Some (serialize env k), opts_ipfsConf = None,
               opts_rpcProviderUrl = None \<rparr>
             opts) = opts_documentHash opts"
    by (simp add: spread_def split: option.splits)
  with a constructor_Inr [OF c]
  show "documentHash this = index (split CHR '':'' (did this)) 2"
    by simp
next
  assume "\<not> present (opts_did opts) \<or> opts_document opts = None \<or> missing (opts_keyring opts)"
  then show "constructor env opts w = (w, Inl (Error ''Data missing for restoring identity''))"
    by (auto simp: constructor_def present_def missing_def split: option.splits)
qed

text \<open>
  A constructor call and a recovery without content address, and a call without
  document.
\<close>

theorem constructor_documentHash_and_missing_data_witness:
  "documentHash
     (projr (snd (constructor demo_env
                    (no_opts\<lparr>opts_did := Some ''did:muport:QmDoc'',
                             opts_document := Some (document alice),
                             opts_keyring := Some (Str ''seed'')\<rparr>)
                    fresh_world))) = Some ''QmDoc'' \<and>
   documentHash
     (projr (snd (recoverIdentity demo_env ''did:muport:QmD1'' (Arr []) no_opts fresh_world)))
     = Some ''QmD1'' \<and>
   constructor demo_env (no_opts\<lparr>opts_did := Some ''did:muport:QmDoc''\<rparr>) fresh_world =
     (fresh_world, Inl (Error ''Data missing for restoring identity''))"
proof -
  let ?o = "no_opts\<lparr>opts_did := Some ''did:muport:QmDoc'',
                    opts_document := Some (document alice),
                    opts_keyring := Some (Str ''seed'')\<rparr>"
  obtain wa a where a: "constructor demo_env ?o fresh_world = (wa, Inr a)"
    by (simp add: demo_simps)
  have da: "did a = ''did:muport:QmDoc''"
    using a by (auto simp: demo_simps)
  obtain wb b where
    b: "recoverIdentity demo_env ''did:muport:QmD1'' (Arr []) no_opts fresh_world = (wb, Inr b)"
    by (simp add: recoverIdentity_def demo_simps)
  have db: "did b = ''did:muport:QmD1''"
    using b by (auto simp: recoverIdentity_def demo_simps)
  have n: "\<not> present (opts_documentHash ?o)" "\<not> present (opts_documentHash no_opts)"
    by (simp_all add: no_opts_def present_def)
  have m: "opts_document (no_opts\<lparr>opts_did := Some ''did:muport:QmDoc''\<rparr>) = None"
    by (simp add: no_opts_def)
  from constructor_documentHash_and_missing_data [of demo_env ?o fresh_world wa a] a n da
  have 1: "documentHash a = Some ''QmDoc''"
    by (simp add: index_def)
  from constructor_documentHash_and_missing_data [of demo_env no_opts fresh_world wb b "''did:muport:QmD1''" "Arr []"] b n db
  have 2: "documentHash b = Some ''QmD1''"
    by (simp add: index_def)
  from constructor_documentHash_and_missing_data [of demo_env "no_opts\<lparr>opts_did := Some ''did:muport:QmDoc''\<rparr>" fresh_world] m
  have 3: "constructor demo_env (no_opts\<lparr>opts_did := Some ''did:muport:QmDoc''\<rparr>) fresh_world =
             (fresh_world, Inl (Error ''Data missing for restoring identity''))"
    by simp
  from 1 2 3 a b show ?thesis by simp
qed

end
